theory Spec2Isabelle
  imports Main
begin

section \<open>Store identifiers\<close>

text \<open>
  The document store addresses a document by an ObjectId, which is a sequence of bytes:
  twelve for every identifier the store makes. \<open>ObjectId(s)\<close> of the driver takes a text
  of exactly 24 characters and reads it with \<open>bytes.fromhex\<close>; it raises when the text has
  another length or \<open>fromhex\<close> raises, and the handlers catch that and answer 400.
  \<open>fromhex\<close> reads two hexadecimal digits per byte, in either case, and skips ASCII
  white space before a byte and at the end, but not between the two digits of a byte. So a
  text of 24 digits gives twelve bytes, and a text of 24 characters with blanks in it gives
  fewer. \<open>str\<close> of an identifier prints its bytes as lower-case digits; an identifier is
  kept as that text.
\<close>

datatype oid = Oid string

definition is_hex :: "char \<Rightarrow> bool" where
  "is_hex c =
     (let n = (of_char c :: nat)
      in (48 \<le> n \<and> n \<le> 57) \<or> (65 \<le> n \<and> n \<le> 70) \<or> (97 \<le> n \<and> n \<le> 102))"

definition lower_hex :: "char \<Rightarrow> char" where
  "lower_hex c =
     (let n = (of_char c :: nat) in if 65 \<le> n \<and> n \<le> 70 then char_of (n + 32) else c)"

text \<open>Space, tab, line feed, vertical tab, form feed and carriage return.\<close>

definition is_space :: "char \<Rightarrow> bool" where
  "is_space c = (let n = (of_char c :: nat) in n = 32 \<or> (9 \<le> n \<and> n \<le> 13))"

text \<open>\<open>bytes.fromhex\<close>, the bytes written as lower-case digits; \<open>None\<close> where it raises.\<close>

fun fromhex :: "string \<Rightarrow> string option" where
  "fromhex [] = Some []"
| "fromhex [c] = (if is_space c then Some [] else None)"
| "fromhex (c # c' # cs) =
     (if is_space c then fromhex (c' # cs)
      else if is_hex c \<and> is_hex c'
        then map_option (\<lambda>bs. lower_hex c # lower_hex c' # bs) (fromhex cs)
        else None)"

definition ObjectId :: "string \<Rightarrow> oid option" where
  "ObjectId s = (if length s = 24 then map_option Oid (fromhex s) else None)"

fun str_oid :: "oid \<Rightarrow> string" where
  "str_oid (Oid h) = h"

text \<open>An identifier of twelve bytes, as every identifier of a stored document is.\<close>

definition well_formed :: "oid \<Rightarrow> bool" where
  "well_formed i = (length (str_oid i) = 24)"

text \<open>
  The driver makes a new identifier for every inserted document that has none. The model
  draws them from a counter kept with the store: the \<open>n\<close>-th identifier is \<open>n\<close> written with
  24 hexadecimal digits.
\<close>

definition hex_char :: "nat \<Rightarrow> char" where
  "hex_char n = (if n < 10 then char_of (48 + n) else char_of (87 + n))"

fun hex_digits :: "nat \<Rightarrow> nat \<Rightarrow> string" where
  "hex_digits 0 n = []"
| "hex_digits (Suc k) n = hex_digits k (n div 16) @ [hex_char (n mod 16)]"

definition new_oid :: "nat \<Rightarrow> oid" where
  "new_oid n = Oid (hex_digits 24 n)"

section \<open>Documents and schemas\<close>

text \<open>
  A document is a Python dict. Its entries are those of the schema of its collection
  (\<open>schemas.py\<close>), kept as a record, and the two entries that \<open>serialize_doc\<close> moves:
  \<open>"_id"\<close>, which the store adds on insertion, and \<open>"id"\<close>, its text form in a response.
\<close>

record 'a document =
  d_oid :: "oid option"
  d_id :: "string option"
  d_fields :: 'a

record Tournament =
  t_name :: string
  t_game :: string
  t_team_ids :: "string list option"

record Team =
  tm_team_name :: string
  tm_team_logo :: "string option"

record Match =
  m_tournament_id :: string
  m_round :: int
  m_team1_id :: "string option"
  m_team2_id :: "string option"
  m_winner_id :: "string option"

text \<open>
  A group name is made by \<open>chr\<close>, so it is a Python str that need not be ASCII: it is kept
  as the list of its code points. All other texts come from a request and are kept as
  \<open>string\<close>.
\<close>

type_synonym ustr = "nat list"

definition ascii :: "string \<Rightarrow> ustr" where
  "ascii s = map of_char s"

record Group =
  g_tournament_id :: string
  g_name :: ustr

record Standing =
  s_tournament_id :: string
  s_group_name :: ustr
  s_team_id :: "string option"
  s_team_country_flag :: "string option"
  s_team_logo :: "string option"
  s_team_name :: "string option"
  s_total_points :: int

text \<open>
  The store: one list of documents per collection, in insertion order, and the counter of
  identifiers made so far. The handlers see \<open>db\<close>, which is \<open>None\<close> when the store is not
  configured.
\<close>

record db =
  tournament_c :: "Tournament document list"
  team_c :: "Team document list"
  match_c :: "Match document list"
  group_c :: "Group document list"
  standing_c :: "Standing document list"
  oid_counter :: nat

datatype exn =
    HTTPException nat string
  | ZeroDivisionError
  | ValueError
  | UnicodeEncodeError
  | OverflowError

section \<open>Store operations\<close>

text \<open>
  A filter \<open>{"_id": i}\<close> selects the documents whose identifier has the bytes of \<open>i\<close>;
  \<open>find_one\<close> returns the first of them and \<open>update_one\<close> changes the first of them. The
  identifiers of stored documents have twelve bytes, so the statements about a lookup by a
  given id are made for identifiers of twelve bytes.
\<close>

definition find_one :: "oid \<Rightarrow> 'a document list \<Rightarrow> 'a document option" where
  "find_one i coll = find (\<lambda>d. d_oid d = Some i) coll"

fun update_one :: "oid \<Rightarrow> ('a \<Rightarrow> 'a) \<Rightarrow> 'a document list \<Rightarrow> 'a document list" where
  "update_one i f [] = []"
| "update_one i f (d # ds) =
     (if d_oid d = Some i then d\<lparr>d_fields := f (d_fields d)\<rparr> # ds
      else d # update_one i f ds)"

definition assign_ids :: "nat \<Rightarrow> 'a document list \<Rightarrow> 'a document list" where
  "assign_ids n docs =
     map (\<lambda>(k, d). case d_oid d of None \<Rightarrow> d\<lparr>d_oid := Some (new_oid k)\<rparr> | Some _ \<Rightarrow> d)
       (zip [n..<n + length docs] docs)"

text \<open>
  Modelled from the spec: \<open>get_documents\<close> of the module \<open>database\<close>, which is not among
  the sources. The spec describes the store as exposing find by filter; the call returns
  the documents of the collection that match the filter, at most \<open>limit\<close> of them when a
  limit is given.
\<close>

definition get_documents ::
  "'a document list \<Rightarrow> ('a \<Rightarrow> bool) \<Rightarrow> nat option \<Rightarrow> 'a document list" where
  "get_documents coll filter_dict limit =
     (let docs = filter (\<lambda>d. filter_dict (d_fields d)) coll
      in case limit of None \<Rightarrow> docs | Some n \<Rightarrow> take n docs)"

section \<open>Handlers\<close>

text \<open>
  \<open>serialize_doc\<close>: copy the dict, and if it has \<open>"_id"\<close>, pop it and store its text under
  \<open>"id"\<close>. Its first test returns an empty dict or \<open>None\<close> as it is; a document of a
  collection is neither, and a dict without \<open>"_id"\<close> is returned unchanged by the second
  test as well.
\<close>

definition serialize_doc :: "'a document \<Rightarrow> 'a document" where
  "serialize_doc doc =
     (case d_oid doc of
        None \<Rightarrow> doc
      | Some i \<Rightarrow> doc\<lparr>d_oid := None, d_id := Some (str_oid i)\<rparr>)"

text \<open>
  \<open>list_tournaments\<close>: the filter is \<open>{"game": game}\<close> when \<open>game\<close> is truthy, that is
  neither \<open>None\<close> nor the empty text, and \<open>{}\<close> otherwise.
\<close>

definition list_tournaments :: "db option \<Rightarrow> string option \<Rightarrow> Tournament document list" where
  "list_tournaments db game =
     (case db of
        None \<Rightarrow> []
      | Some d \<Rightarrow>
          let filter_q =
                (case game of
                   None \<Rightarrow> (\<lambda>t. True)
                 | Some g \<Rightarrow> if g \<noteq> [] then (\<lambda>t. t_game t = g) else (\<lambda>t. True));
              docs = get_documents (tournament_c d) filter_q None
          in map serialize_doc docs)"



text \<open>
  Modelled from the spec: \<open>create_document\<close> of the module \<open>database\<close>, which is not
  among the sources. It inserts the data as one new document and returns the text of the
  identifier the store gave it.
\<close>

definition create_document ::
  "'a document list \<Rightarrow> nat \<Rightarrow> 'a \<Rightarrow> string \<times> 'a document list \<times> nat" where
  "create_document coll n data =
     (str_oid (new_oid n),
      coll @ [\<lparr>d_oid = Some (new_oid n), d_id = None, d_fields = data\<rparr>],
      Suc n)"

record CreateTournamentRequest =
  tournament_name :: string
  game :: string

definition create_tournament ::
  "db option \<Rightarrow> CreateTournamentRequest \<Rightarrow> (exn + Tournament document) \<times> db option" where
  "create_tournament db payload =
     (case db of
        None \<Rightarrow> (Inl (HTTPException 500 ''Database not configured''), db)
      | Some d \<Rightarrow>
          let data = \<lparr>t_name = tournament_name payload, t_game = game payload,
                      t_team_ids = Some []\<rparr>;
              (inserted_id, coll, n) = create_document (tournament_c d) (oid_counter d) data
          in (Inr \<lparr>d_oid = None, d_id = Some inserted_id,
                   d_fields = \<lparr>t_name = tournament_name payload, t_game = game payload,
                                t_team_ids = Some []\<rparr>\<rparr>,
              Some (d\<lparr>tournament_c := coll, oid_counter := n\<rparr>)))"

subsection \<open>Attaching a team\<close>

record AttachTeamRequest =
  team_id :: string

record ok_response =
  ok :: bool

text \<open>
  \<open>$addToSet\<close> appends the value to the array unless the array holds it already, and
  makes the array when the document has no such entry.
\<close>

definition add_to_set :: "string \<Rightarrow> string list option \<Rightarrow> string list option" where
  "add_to_set v field =
     (case field of
        None \<Rightarrow> Some [v]
      | Some xs \<Rightarrow> if v \<in> set xs then Some xs else Some (xs @ [v]))"

definition attach_team ::
  "db option \<Rightarrow> string \<Rightarrow> AttachTeamRequest \<Rightarrow> (exn + ok_response) \<times> db option" where
  "attach_team db tournament_id payload =
     (case db of
        None \<Rightarrow> (Inl (HTTPException 500 ''Database not configured''), db)
      | Some d \<Rightarrow>
          (case ObjectId tournament_id of
             None \<Rightarrow> (Inl (HTTPException 400 ''Invalid IDs''), db)
           | Some tid \<Rightarrow>
               (case ObjectId (team_id payload) of
                  None \<Rightarrow> (Inl (HTTPException 400 ''Invalid IDs''), db)
                | Some team_oid \<Rightarrow>
                    (case find_one team_oid (team_c d) of
                       None \<Rightarrow> (Inl (HTTPException 404 ''Team not found''), db)
                     | Some team \<Rightarrow>
                         (Inr \<lparr>ok = True\<rparr>,
                          Some (d\<lparr>tournament_c :=
                                    update_one tid
                                      (\<lambda>t. t\<lparr>t_team_ids :=
                                                add_to_set (team_id payload) (t_team_ids t)\<rparr>)
                                      (tournament_c d)\<rparr>))))))"

subsection \<open>Brackets\<close>

text \<open>
  \<open>insert_many\<close> gives every document an identifier and appends the documents to the
  collection. The store holds texts as UTF-8, and the driver encodes all documents before
  it sends any: a text that cannot be encoded makes the call raise with nothing written.
  Only a text made by \<open>chr\<close> can be such; the predicate says which documents encode.
\<close>

definition insert_many ::
  "('a \<Rightarrow> bool) \<Rightarrow> 'a document list \<Rightarrow> 'a document list \<Rightarrow> nat
     \<Rightarrow> exn + ('a document list \<times> nat)" where
  "insert_many encodes docs coll n =
     (if list_all (\<lambda>doc. encodes (d_fields doc)) docs
      then Inr (coll @ assign_ids n docs, n + length docs)
      else Inl UnicodeEncodeError)"

text \<open>\<open>range(start, stop, step)\<close> for a positive step.\<close>

function py_range3 :: "nat \<Rightarrow> nat \<Rightarrow> nat \<Rightarrow> nat list" where
  "py_range3 i n s = (if i < n \<and> 0 < s then i # py_range3 (i + s) n s else [])"
  by pat_completeness auto
termination
  by (relation "measure (\<lambda>(i, n, s). n - i)") auto

declare py_range3.simps [simp del]

record created_response =
  created :: int

definition bracket_match :: "string \<Rightarrow> string list \<Rightarrow> nat \<Rightarrow> Match document" where
  "bracket_match tournament_id team_ids i =
     (let t1 = (if i < length team_ids then Some (team_ids ! i) else None);
          t2 = (if i + 1 < length team_ids then Some (team_ids ! (i + 1)) else None)
      in \<lparr>d_oid = None, d_id = None,
          d_fields = \<lparr>m_tournament_id = tournament_id, m_round = 1, m_team1_id = t1,
                       m_team2_id = t2, m_winner_id = None\<rparr>\<rparr>)"

text \<open>\<open>tournament.get("team_ids", [])\<close>\<close>

definition get_team_ids :: "Tournament document \<Rightarrow> string list" where
  "get_team_ids tournament =
     (case t_team_ids (d_fields tournament) of None \<Rightarrow> [] | Some xs \<Rightarrow> xs)"

definition generate_brackets ::
  "db option \<Rightarrow> string \<Rightarrow> (exn + created_response) \<times> db option" where
  "generate_brackets db tournament_id =
     (case db of
        None \<Rightarrow> (Inl (HTTPException 500 ''Database not configured''), db)
      | Some d \<Rightarrow>
          (case ObjectId tournament_id of
             None \<Rightarrow> (Inl (HTTPException 400 ''Invalid tournament id''), db)
           | Some tid \<Rightarrow>
               (case find_one tid (tournament_c d) of
                  None \<Rightarrow> (Inl (HTTPException 404 ''Tournament not found''), db)
                | Some tournament \<Rightarrow>
                    let team_ids = get_team_ids tournament;
                        matches = map (bracket_match tournament_id team_ids)
                                    (py_range3 0 (length team_ids) 2)
                    in if matches \<noteq> []
                       then (case insert_many (\<lambda>m. True) matches (match_c d) (oid_counter d) of
                               Inl e \<Rightarrow> (Inl e, db)
                             | Inr (coll, n) \<Rightarrow>
                                 (Inr \<lparr>created = int (length matches)\<rparr>,
                                  Some (d\<lparr>match_c := coll, oid_counter := n\<rparr>)))
                       else (Inr \<lparr>created = int (length matches)\<rparr>, db))))"

definition list_matches :: "db option \<Rightarrow> string \<Rightarrow> Match document list" where
  "list_matches db tournament_id =
     (case db of
        None \<Rightarrow> []
      | Some d \<Rightarrow>
          map serialize_doc
            (filter (\<lambda>doc. m_tournament_id (d_fields doc) = tournament_id) (match_c d)))"

subsection \<open>Partial updates\<close>













subsection \<open>Groups and standings\<close>

text \<open>
  \<open>chr(i)\<close> raises ValueError unless \<open>0 \<le> i < 0x110000\<close>; its result is the text of that
  one code point. A code point from U+D800 to U+DFFF is a surrogate and has no UTF-8 form.
\<close>

definition py_chr :: "int \<Rightarrow> exn + ustr" where
  "py_chr i = (if 0 \<le> i \<and> i < 1114112 then Inr [nat i] else Inl ValueError)"

definition utf8_encodes :: "ustr \<Rightarrow> bool" where
  "utf8_encodes s = list_all (\<lambda>c. c < 55296 \<or> (57343 < c \<and> c < 1114112)) s"

text \<open>\<open>range(n)\<close>, empty when \<open>n \<le> 0\<close>.\<close>

definition py_range :: "int \<Rightarrow> int list" where
  "py_range n = map int [0..<nat n]"

text \<open>A list comprehension whose element expression can raise: the first raise ends it.\<close>

fun list_comp :: "('a \<Rightarrow> exn + 'b) \<Rightarrow> 'a list \<Rightarrow> exn + 'b list" where
  "list_comp f [] = Inr []"
| "list_comp f (x # xs) =
     (case f x of
        Inl e \<Rightarrow> Inl e
      | Inr y \<Rightarrow> (case list_comp f xs of Inl e \<Rightarrow> Inl e | Inr ys \<Rightarrow> Inr (y # ys)))"

text \<open>\<open>a // b\<close>: floor division, which raises on a zero divisor.\<close>

definition floordiv :: "int \<Rightarrow> int \<Rightarrow> exn + int" where
  "floordiv a b = (if b = 0 then Inl ZeroDivisionError else Inr (a div b))"

text \<open>\<open>[chr(ord('A') + i) for i in range(n)]\<close>\<close>

definition group_names :: "int \<Rightarrow> exn + ustr list" where
  "group_names n = list_comp (\<lambda>i. py_chr (of_char CHR ''A'' + i)) (py_range n)"

record GroupGenerationRequest =
  number_of_teams :: int
  number_of_groups :: int

record groups_response =
  groups_created :: int
  standing_slots :: int

definition standing_slot :: "string \<Rightarrow> ustr \<Rightarrow> Standing document" where
  "standing_slot tournament_id g =
     \<lparr>d_oid = None, d_id = None,
      d_fields = \<lparr>s_tournament_id = tournament_id, s_group_name = g, s_team_id = None,
                   s_team_country_flag = None, s_team_logo = None, s_team_name = None,
                   s_total_points = 0\<rparr>\<rparr>"

definition generate_groups ::
  "db option \<Rightarrow> string \<Rightarrow> GroupGenerationRequest \<Rightarrow> (exn + groups_response) \<times> db option" where
  "generate_groups db tournament_id payload =
     (case db of
        None \<Rightarrow> (Inl (HTTPException 500 ''Database not configured''), db)
      | Some d \<Rightarrow>
          (case ObjectId tournament_id of
             None \<Rightarrow> (Inl (HTTPException 400 ''Invalid tournament id''), db)
           | Some tid \<Rightarrow>
               (case find_one tid (tournament_c d) of
                  None \<Rightarrow> (Inl (HTTPException 404 ''Tournament not found''), db)
                | Some tournament \<Rightarrow>
                    (case group_names (number_of_groups payload) of
                       Inl e \<Rightarrow> (Inl e, db)
                     | Inr names \<Rightarrow>
                         let groups =
                               map (\<lambda>g. \<lparr>d_oid = None, d_id = None,
                                         d_fields = \<lparr>g_tournament_id = tournament_id,
                                                      g_name = g\<rparr>\<rparr>) names
                         in (case (if groups \<noteq> []
                                   then insert_many (\<lambda>g. utf8_encodes (g_name g)) groups
                                          (group_c d) (oid_counter d)
                                   else Inr (group_c d, oid_counter d)) of
                               Inl e \<Rightarrow> (Inl e, db)
                             | Inr (gc, n1) \<Rightarrow>
                                 let d1 = d\<lparr>group_c := gc, oid_counter := n1\<rparr>
                                 in (case floordiv (number_of_teams payload)
                                            (number_of_groups payload) of
                                       Inl e \<Rightarrow> (Inl e, Some d1)
                                     | Inr q \<Rightarrow>
                                         let slots_per_group = max 1 q;
                                             standings =
                                               concat (map (\<lambda>g. replicate (nat slots_per_group)
                                                                   (standing_slot tournament_id g))
                                                         names)
                                         in (case (if standings \<noteq> []
                                                   then insert_many
                                                          (\<lambda>s. utf8_encodes (s_group_name s))
                                                          standings (standing_c d1) (oid_counter d1)
                                                   else Inr (standing_c d1, oid_counter d1)) of
                                               Inl e \<Rightarrow> (Inl e, Some d1)
                                             | Inr (sc, n2) \<Rightarrow>
                                                 (Inr \<lparr>groups_created = int (length groups),
                                                       standing_slots = int (length standings)\<rparr>,
                                                  Some (d1\<lparr>standing_c := sc,
                                                           oid_counter := n2\<rparr>)))))))))"

section \<open>Notions used in the statements\<close>

text \<open>A sequence of \<open>attach_team\<close> calls, each on the store the call before left.\<close>

fun attach_all :: "db option \<Rightarrow> (string \<times> AttachTeamRequest) list \<Rightarrow> db option" where
  "attach_all db [] = db"
| "attach_all db ((tournament_id, payload) # calls) =
     attach_all (snd (attach_team db tournament_id payload)) calls"

text \<open>No tournament of the store lists a team twice.\<close>

definition duplicate_free :: "db \<Rightarrow> bool" where
  "duplicate_free d = (\<forall>t \<in> set (tournament_c d). distinct (get_team_ids t))"


section \<open>An example store\<close>

text \<open>
  Two tournaments, four teams, one match and one standing; the first tournament has three
  teams attached.
\<close>

definition example_store :: db where
  "example_store =
     \<lparr>tournament_c =
        [\<lparr>d_oid = Some (Oid ''0000000000000000000000a1''), d_id = None,
          d_fields = \<lparr>t_name = ''PUBG Open'', t_game = ''PUBG Mobile'',
                       t_team_ids = Some [''0000000000000000000000b1'',
                                          ''0000000000000000000000b2'',
                                          ''0000000000000000000000b3'']\<rparr>\<rparr>,
         \<lparr>d_oid = Some (Oid ''0000000000000000000000a2''), d_id = None,
          d_fields = \<lparr>t_name = ''HoK Cup'', t_game = ''Honor of Kings'',
                       t_team_ids = Some []\<rparr>\<rparr>],
      team_c =
        [\<lparr>d_oid = Some (Oid ''0000000000000000000000b1''), d_id = None,
          d_fields = \<lparr>tm_team_name = ''Alpha'', tm_team_logo = None\<rparr>\<rparr>,
         \<lparr>d_oid = Some (Oid ''0000000000000000000000b2''), d_id = None,
          d_fields = \<lparr>tm_team_name = ''Bravo'', tm_team_logo = Some ''bravo.png''\<rparr>\<rparr>,
         \<lparr>d_oid = Some (Oid ''0000000000000000000000b3''), d_id = None,
          d_fields = \<lparr>tm_team_name = ''Charlie'', tm_team_logo = None\<rparr>\<rparr>,
         \<lparr>d_oid = Some (Oid ''0000000000000000000000b4''), d_id = None,
          d_fields = \<lparr>tm_team_name = ''Delta'', tm_team_logo = None\<rparr>\<rparr>],
      match_c =
        [\<lparr>d_oid = Some (Oid ''0000000000000000000000c1''), d_id = None,
          d_fields = \<lparr>m_tournament_id = ''0000000000000000000000a2'', m_round = 1,
                       m_team1_id = Some ''0000000000000000000000b1'',
                       m_team2_id = Some ''0000000000000000000000b2'',
                       m_winner_id = None\<rparr>\<rparr>],
      group_c = [],
      standing_c =
        [\<lparr>d_oid = Some (Oid ''0000000000000000000000d1''), d_id = None,
          d_fields = \<lparr>s_tournament_id = ''0000000000000000000000a2'',
                       s_group_name = ascii ''A'', s_team_id = None,
                       s_team_country_flag = None, s_team_logo = None,
                       s_team_name = Some ''Alpha'', s_total_points = 3\<rparr>\<rparr>],
      oid_counter = 0\<rparr>"

section \<open>Lookups\<close>

lemma find_one_None_iff: "find_one i coll = None \<longleftrightarrow> (\<forall>d \<in> set coll. d_oid d \<noteq> Some i)"
  by (auto simp: find_one_def find_None_iff)



section \<open>Fetching one tournament\<close>

text \<open>
  What \<open>ObjectId\<close> takes: 24 digits in either case; a text of 24 characters with blanks
  between the bytes, which gives a shorter identifier; but no text of another length, none
  with another character, and none with a blank inside a byte.
\<close>

lemma ObjectId_a1: "ObjectId ''0000000000000000000000a1'' = Some (Oid ''0000000000000000000000a1'')"
  by code_simp



lemma ObjectId_blanks: "ObjectId ''0000 0000 0000 0000 0000'' = Some (Oid ''00000000000000000000'')"
  by code_simp


lemma ObjectId_digits:
  assumes "length s = 24" and "list_all is_hex s"
  shows "ObjectId s = Some (Oid (map lower_hex s)) \<and> well_formed (Oid (map lower_hex s))"
proof -
  have "list_all is_hex t \<Longrightarrow> even (length t) \<Longrightarrow> fromhex t = Some (map lower_hex t)" for t
  proof (induction t rule: fromhex.induct)
    case 1
    then show ?case by simp
  next
    case (2 c)
    then show ?case by simp
  next
    case (3 c c' cs)
    have "\<not> is_space c"
      using "3.prems"(1) by (auto simp: is_space_def is_hex_def Let_def)
    with 3 show ?case by simp
  qed
  with assms show ?thesis
    by (simp add: ObjectId_def well_formed_def)
qed



section \<open>Listing tournaments\<close>

text \<open>
  C7, as stated, fails for the empty game text: the handler tests \<open>game\<close> for truth, so an
  empty text selects no filter and every tournament is returned, whatever its game.
\<close>

theorem list_tournaments_empty_game_counterexample:
  "list_tournaments (Some example_store) (Some '''') =
     map serialize_doc (tournament_c example_store) \<and>
   map (t_game \<circ> d_fields) (list_tournaments (Some example_store) (Some '''')) =
     [''PUBG Mobile'', ''Honor of Kings''] \<and>
   ''PUBG Mobile'' \<noteq> ''''"
  by (simp add: list_tournaments_def get_documents_def example_store_def serialize_doc_def)

text \<open>
  C7, amended. Without a store \<open>list_tournaments\<close> returns the empty list. With a store
  and a game text that is not empty it returns, serialized and in stored order, exactly the
  tournaments whose game equals that text; with no game, or with the empty text, it returns
  all tournaments.
\<close>

theorem list_tournaments_filter:
  "list_tournaments None q = [] \<and>
   (g \<noteq> '''' \<longrightarrow>
      list_tournaments (Some d) (Some g) =
        map serialize_doc (filter (\<lambda>doc. t_game (d_fields doc) = g) (tournament_c d))) \<and>
   list_tournaments (Some d) (Some '''') = map serialize_doc (tournament_c d) \<and>
   list_tournaments (Some d) None = map serialize_doc (tournament_c d)"
  by (simp add: list_tournaments_def get_documents_def)

theorem list_tournaments_filter_witness:
  "''Honor of Kings'' \<noteq> '''' \<and>
   list_tournaments (Some example_store) (Some ''Honor of Kings'') =
     [\<lparr>d_oid = None, d_id = Some ''0000000000000000000000a2'',
       d_fields = \<lparr>t_name = ''HoK Cup'', t_game = ''Honor of Kings'', t_team_ids = Some []\<rparr>\<rparr>]"
  using list_tournaments_filter [of None "''Honor of Kings''" example_store]
  by (simp add: example_store_def serialize_doc_def)

section \<open>Attaching teams\<close>

lemma update_one_absent:
  "\<forall>x \<in> set coll. d_oid x \<noteq> Some i \<Longrightarrow> update_one i f coll = coll"
  by (induction coll) auto

lemma update_one_idem:
  "(\<And>x. f (f x) = f x) \<Longrightarrow> update_one i f (update_one i f coll) = update_one i f coll"
  by (induction coll) auto

lemma add_to_set_idem: "add_to_set v (add_to_set v field) = add_to_set v field"
  by (auto simp: add_to_set_def split: option.splits)

lemma add_to_set_distinct:
  "(case field of None \<Rightarrow> True | Some xs \<Rightarrow> distinct xs) \<Longrightarrow>
   (case add_to_set v field of None \<Rightarrow> True | Some xs \<Rightarrow> distinct xs)"
  by (auto simp: add_to_set_def split: option.splits)

lemma find_one_update_one:
  "find_one i (update_one i f coll) =
     map_option (\<lambda>doc. doc\<lparr>d_fields := f (d_fields doc)\<rparr>) (find_one i coll)"
  by (induction coll) (auto simp: find_one_def)

lemma set_update_one:
  "x \<in> set (update_one i f coll) \<Longrightarrow>
   x \<in> set coll \<or> (\<exists>y \<in> set coll. x = y\<lparr>d_fields := f (d_fields y)\<rparr>)"
  by (induction coll) (auto split: if_splits)

text \<open>
  C9. \<open>attach_team\<close> does not look the tournament up: for a well-formed tournament id that
  no stored tournament has, and the id of a stored team, the call answers \<open>{ok: true}\<close> and
  the store is left as it was.
\<close>

theorem attach_team_missing_tournament:
  assumes "ObjectId tournament_id = Some tid"
    and "ObjectId (team_id payload) = Some team_oid"
    and "\<exists>team \<in> set (team_c d). d_oid team = Some team_oid"
    and "\<forall>t \<in> set (tournament_c d). d_oid t \<noteq> Some tid"
  shows "attach_team (Some d) tournament_id payload = (Inr \<lparr>ok = True\<rparr>, Some d)"
proof -
  from assms(3) obtain team where "find_one team_oid (team_c d) = Some team"
    using find_one_None_iff [of team_oid "team_c d"] by (cases "find_one team_oid (team_c d)") auto
  then show ?thesis
    using assms(1,2,4) by (simp add: attach_team_def update_one_absent)
qed

theorem attach_team_missing_tournament_witness:
  "attach_team (Some example_store) ''0000000000000000000000ff''
     \<lparr>team_id = ''0000000000000000000000b4''\<rparr> = (Inr \<lparr>ok = True\<rparr>, Some example_store)"
proof -
  have 1: "ObjectId ''0000000000000000000000ff'' = Some (Oid ''0000000000000000000000ff'')"
    by code_simp
  have 2: "ObjectId (team_id \<lparr>team_id = ''0000000000000000000000b4''\<rparr>) =
             Some (Oid ''0000000000000000000000b4'')"
    by code_simp
  have 3: "\<exists>team \<in> set (team_c example_store). d_oid team = Some (Oid ''0000000000000000000000b4'')"
    by (simp add: example_store_def)
  have 4: "\<forall>t \<in> set (tournament_c example_store). d_oid t \<noteq> Some (Oid ''0000000000000000000000ff'')"
    by (simp add: example_store_def)
  show ?thesis by (rule attach_team_missing_tournament [OF 1 2 3 4])
qed

lemma attach_team_twice:
  "attach_team (snd (attach_team db tournament_id payload)) tournament_id payload =
     attach_team db tournament_id payload"
  by (auto simp: attach_team_def update_one_idem add_to_set_idem split: option.splits)

lemma attach_team_duplicate_free:
  assumes "duplicate_free d" and "snd (attach_team (Some d) tournament_id payload) = Some d'"
  shows "duplicate_free d'"
proof -
  have *: "distinct (get_team_ids (y\<lparr>d_fields := (d_fields y)\<lparr>t_team_ids := add_to_set v (t_team_ids (d_fields y))\<rparr>\<rparr>))"
    if "distinct (get_team_ids y)" for y :: "Tournament document" and v
    using that by (auto simp: get_team_ids_def add_to_set_def split: option.splits)
  show ?thesis
    using assms
    by (auto simp: attach_team_def duplicate_free_def * split: option.splits dest!: set_update_one)
qed

lemma attach_team_Some: "\<exists>d'. snd (attach_team (Some d) tournament_id payload) = Some d'"
  by (auto simp: attach_team_def split: option.splits)

lemma attach_all_duplicate_free:
  "duplicate_free d \<Longrightarrow> \<exists>d'. attach_all (Some d) calls = Some d' \<and> duplicate_free d'"
proof (induction calls arbitrary: d)
  case Nil
  then show ?case by simp
next
  case (Cons c calls)
  obtain t p where c: "c = (t, p)" by (cases c)
  obtain d1 where d1: "snd (attach_team (Some d) t p) = Some d1"
    using attach_team_Some by blast
  with Cons.prems have "duplicate_free d1" by (rule attach_team_duplicate_free)
  from Cons.IH [OF this] show ?case by (simp add: c d1)
qed


lemma create_tournament_duplicate_free:
  assumes "duplicate_free d" and "snd (create_tournament (Some d) payload) = Some d'"
  shows "duplicate_free d'"
  using assms
  by (auto simp: create_tournament_def create_document_def duplicate_free_def get_team_ids_def)

lemma attach_team_adds:
  assumes "ObjectId tournament_id = Some tid"
    and "ObjectId (team_id payload) = Some team_oid"
    and "\<exists>team \<in> set (team_c d). d_oid team = Some team_oid"
    and "find_one tid (tournament_c d) = Some doc"
  shows "\<exists>d' doc'. attach_team (Some d) tournament_id payload = (Inr \<lparr>ok = True\<rparr>, Some d') \<and>
           find_one tid (tournament_c d') = Some doc' \<and>
           get_team_ids doc' =
             (if team_id payload \<in> set (get_team_ids doc) then get_team_ids doc
              else get_team_ids doc @ [team_id payload])"
proof -
  from assms(3) obtain team where "find_one team_oid (team_c d) = Some team"
    using find_one_None_iff [of team_oid "team_c d"] by (cases "find_one team_oid (team_c d)") auto
  then show ?thesis
    using assms(1,2,4)
    by (auto simp: attach_team_def find_one_update_one get_team_ids_def add_to_set_def
        split: option.splits)
qed

text \<open>
  C3. \<open>attach_team\<close> is an idempotent set insert. A second call with the same arguments
  gives the answer and the store of the first. When the tournament and the team exist, the
  team id is appended to the tournament's list unless the list holds it already. And a
  store in which no tournament lists a team twice, as is every store that only
  \<open>create_tournament\<close> and \<open>attach_team\<close> have written, stays so under any sequence of
  attach calls.
\<close>

theorem attach_team_set_insert:
  "attach_team (snd (attach_team db tournament_id payload)) tournament_id payload =
     attach_team db tournament_id payload \<and>
   (\<forall>tid team_oid doc.
      ObjectId tournament_id = Some tid \<and> ObjectId (team_id payload) = Some team_oid \<and>
      (\<exists>team \<in> set (team_c d). d_oid team = Some team_oid) \<and>
      find_one tid (tournament_c d) = Some doc \<longrightarrow>
      (\<exists>d' doc'. attach_team (Some d) tournament_id payload = (Inr \<lparr>ok = True\<rparr>, Some d') \<and>
         find_one tid (tournament_c d') = Some doc' \<and>
         get_team_ids doc' =
           (if team_id payload \<in> set (get_team_ids doc) then get_team_ids doc
            else get_team_ids doc @ [team_id payload]))) \<and>
   (duplicate_free d \<longrightarrow>
      (\<exists>d'. attach_all (Some d) calls = Some d' \<and> duplicate_free d'))"
  using attach_team_twice attach_team_adds attach_all_duplicate_free by blast

theorem attach_team_set_insert_witness:
  "duplicate_free example_store \<and>
   (\<exists>d'. attach_all (Some example_store)
            [(''0000000000000000000000a2'', \<lparr>team_id = ''0000000000000000000000b1''\<rparr>),
             (''0000000000000000000000a2'', \<lparr>team_id = ''0000000000000000000000b2''\<rparr>),
             (''0000000000000000000000a2'', \<lparr>team_id = ''0000000000000000000000b1''\<rparr>)] = Some d' \<and>
          duplicate_free d') \<and>
   (\<exists>d' doc'. attach_team (Some example_store) ''0000000000000000000000a1''
                    \<lparr>team_id = ''0000000000000000000000b4''\<rparr> = (Inr \<lparr>ok = True\<rparr>, Some d') \<and>
      find_one (Oid ''0000000000000000000000a1'') (tournament_c d') = Some doc' \<and>
      get_team_ids doc' =
        [''0000000000000000000000b1'', ''0000000000000000000000b2'',
         ''0000000000000000000000b3'', ''0000000000000000000000b4''])"
proof -
  have 1: "ObjectId ''0000000000000000000000a1'' = Some (Oid ''0000000000000000000000a1'')"
    by code_simp
  have 2: "ObjectId (team_id \<lparr>team_id = ''0000000000000000000000b4''\<rparr>) =
             Some (Oid ''0000000000000000000000b4'')"
    by code_simp
  have 3: "\<exists>team \<in> set (team_c example_store). d_oid team = Some (Oid ''0000000000000000000000b4'')"
    by (simp add: example_store_def)
  have 4: "find_one (Oid ''0000000000000000000000a1'') (tournament_c example_store) =
             Some (hd (tournament_c example_store))"
    by (simp add: example_store_def find_one_def)
  have 5: "duplicate_free example_store"
    by (simp add: duplicate_free_def example_store_def get_team_ids_def)
  have 6: "get_team_ids (hd (tournament_c example_store)) =
             [''0000000000000000000000b1'', ''0000000000000000000000b2'',
              ''0000000000000000000000b3'']"
    by (simp add: example_store_def get_team_ids_def)
  show ?thesis
    using attach_team_set_insert
      [of "Some example_store" "''0000000000000000000000a1''"
        "\<lparr>team_id = ''0000000000000000000000b4''\<rparr>" example_store
        "[(''0000000000000000000000a2'', \<lparr>team_id = ''0000000000000000000000b1''\<rparr>),
          (''0000000000000000000000a2'', \<lparr>team_id = ''0000000000000000000000b2''\<rparr>),
          (''0000000000000000000000a2'', \<lparr>team_id = ''0000000000000000000000b1''\<rparr>)]"]
      1 2 3 4 5
    by (simp add: 6)
qed

text \<open>
  The set holds the texts as they were sent. Two spellings of one identifier, which differ
  in the case of a digit, both pass the lookup of the team and are two entries.
\<close>

lemma attach_team_case_variants:
  "map get_team_ids
     (tournament_c (the (attach_all (Some example_store)
        [(''0000000000000000000000a2'', \<lparr>team_id = ''0000000000000000000000b1''\<rparr>),
         (''0000000000000000000000a2'', \<lparr>team_id = ''0000000000000000000000B1''\<rparr>)]))) ! 1 =
   [''0000000000000000000000b1'', ''0000000000000000000000B1'']"
  by code_simp

section \<open>Partial updates of matches and standings\<close>











section \<open>Brackets\<close>

lemma py_range3_two: "py_range3 i n 2 = map (\<lambda>k. i + 2 * k) [0..<(n - i + 1) div 2]"
proof (induction i n "2::nat" rule: py_range3.induct)
  case (1 i n)
  show ?case
  proof (cases "i < n")
    case True
    then have *: "(n - i + 1) div 2 = Suc ((n - (i + 2) + 1) div 2)" by arith
    have "py_range3 i n 2 = i # py_range3 (i + 2) n 2"
      using True by (subst py_range3.simps) simp
    also have "\<dots> = i # map (\<lambda>k. i + 2 + 2 * k) [0..<(n - (i + 2) + 1) div 2]"
      using 1 True by simp
    also have "\<dots> = map (\<lambda>k. i + 2 * k) [0..<(n - i + 1) div 2]"
      unfolding * by (simp add: upt_conv_Cons map_Suc_upt [symmetric] del: upt_Suc)
    finally show ?thesis .
  next
    case False
    then show ?thesis by (subst py_range3.simps) simp
  qed
qed

lemma length_assign_ids: "length (assign_ids n docs) = length docs"
  by (simp add: assign_ids_def)

lemma nth_assign_ids:
  "k < length docs \<Longrightarrow>
   assign_ids n docs ! k =
     (case d_oid (docs ! k) of
        None \<Rightarrow> (docs ! k)\<lparr>d_oid := Some (new_oid (n + k))\<rparr>
      | Some _ \<Rightarrow> docs ! k)"
  by (simp add: assign_ids_def)

lemma map_fields_assign_ids: "map d_fields (assign_ids n docs) = map d_fields docs"
  by (rule nth_equalityI) (auto simp: length_assign_ids nth_assign_ids split: option.splits)

lemma generate_brackets_unfold:
  assumes "ObjectId tournament_id = Some tid"
    and "find_one tid (tournament_c d) = Some tournament"
  shows "generate_brackets (Some d) tournament_id =
           (let ms = map (bracket_match tournament_id (get_team_ids tournament))
                       (py_range3 0 (length (get_team_ids tournament)) 2)
            in (Inr \<lparr>created = int (length ms)\<rparr>,
                Some (d\<lparr>match_c := match_c d @ assign_ids (oid_counter d) ms,
                        oid_counter := oid_counter d + length ms\<rparr>)))"
  using assms
  by (simp add: generate_brackets_def insert_many_def Let_def assign_ids_def list_all_iff)


lemma bracket_matches_nth:
  assumes "k < (length ids + 1) div 2"
  shows "map (bracket_match t ids) (py_range3 0 (length ids) 2) ! k =
           \<lparr>d_oid = None, d_id = None,
            d_fields = \<lparr>m_tournament_id = t, m_round = 1, m_team1_id = Some (ids ! (2 * k)),
                         m_team2_id = (if 2 * k + 1 < length ids then Some (ids ! (2 * k + 1))
                                       else None),
                         m_winner_id = None\<rparr>\<rparr>"
proof -
  from assms have "2 * k < length ids" by arith
  with assms show ?thesis
    by (simp add: py_range3_two bracket_match_def)
qed

lemma length_bracket_matches:
  "length (map (bracket_match t ids) (py_range3 0 (length ids) 2)) = (length ids + 1) div 2"
  by (simp add: py_range3_two)

text \<open>
  C1. For a stored tournament with \<open>N\<close> attached team ids, \<open>generate_brackets\<close> answers
  \<open>{created: ceil(N/2)}\<close> and appends exactly that many match documents to the match
  collection, leaving the other collections as they were. Match \<open>k\<close> has team 1 the id at
  position \<open>2k\<close> and team 2 the id at position \<open>2k+1\<close>, or null when there is no such
  position; its round is 1 and its winner null. The last match has no team 2 exactly when
  \<open>N\<close> is odd.
\<close>

theorem generate_brackets_pairs:
  assumes "ObjectId tournament_id = Some tid"
    and "find_one tid (tournament_c d) = Some tournament"
  shows "\<exists>d' new.
      generate_brackets (Some d) tournament_id =
        (Inr \<lparr>created = int ((length (get_team_ids tournament) + 1) div 2)\<rparr>, Some d') \<and>
      match_c d' = match_c d @ new \<and>
      tournament_c d' = tournament_c d \<and> team_c d' = team_c d \<and>
      group_c d' = group_c d \<and> standing_c d' = standing_c d \<and>
      length new = (length (get_team_ids tournament) + 1) div 2 \<and>
      (\<forall>k < length new.
         d_oid (new ! k) \<noteq> None \<and>
         m_tournament_id (d_fields (new ! k)) = tournament_id \<and>
         m_round (d_fields (new ! k)) = 1 \<and>
         m_team1_id (d_fields (new ! k)) = Some (get_team_ids tournament ! (2 * k)) \<and>
         m_team2_id (d_fields (new ! k)) =
           (if 2 * k + 1 < length (get_team_ids tournament)
            then Some (get_team_ids tournament ! (2 * k + 1)) else None) \<and>
         m_winner_id (d_fields (new ! k)) = None) \<and>
      (new \<noteq> [] \<longrightarrow>
         (m_team2_id (d_fields (last new)) = None \<longleftrightarrow>
          odd (length (get_team_ids tournament))))"
proof -
  let ?ids = "get_team_ids tournament"
  let ?ms = "map (bracket_match tournament_id ?ids) (py_range3 0 (length ?ids) 2)"
  let ?new = "assign_ids (oid_counter d) ?ms"
  let ?d' = "d\<lparr>match_c := match_c d @ ?new, oid_counter := oid_counter d + length ?ms\<rparr>"
  have len: "length ?new = (length ?ids + 1) div 2"
    by (simp only: length_assign_ids length_bracket_matches)
  have nth: "?new ! k = (?ms ! k)\<lparr>d_oid := Some (new_oid (oid_counter d + k))\<rparr>"
    if "k < (length ?ids + 1) div 2" for k
  proof -
    from that have "k < length ?ms" by (simp only: length_bracket_matches)
    then have "?new ! k =
        (case d_oid (?ms ! k) of
           None \<Rightarrow> (?ms ! k)\<lparr>d_oid := Some (new_oid (oid_counter d + k))\<rparr>
         | Some _ \<Rightarrow> ?ms ! k)"
      by (rule nth_assign_ids)
    moreover have "d_oid (?ms ! k) = None"
      by (simp only: bracket_matches_nth [OF that]) simp
    ultimately show ?thesis by simp
  qed
  have run: "generate_brackets (Some d) tournament_id =
      (Inr \<lparr>created = int ((length ?ids + 1) div 2)\<rparr>, Some ?d')"
    using generate_brackets_unfold [OF assms] length_bracket_matches [of tournament_id ?ids]
    by (simp only: Let_def)
  have each: "\<forall>k < length ?new.
         d_oid (?new ! k) \<noteq> None \<and>
         m_tournament_id (d_fields (?new ! k)) = tournament_id \<and>
         m_round (d_fields (?new ! k)) = 1 \<and>
         m_team1_id (d_fields (?new ! k)) = Some (?ids ! (2 * k)) \<and>
         m_team2_id (d_fields (?new ! k)) =
           (if 2 * k + 1 < length ?ids then Some (?ids ! (2 * k + 1)) else None) \<and>
         m_winner_id (d_fields (?new ! k)) = None"
    by (simp add: len nth bracket_matches_nth)
  have last: "m_team2_id (d_fields (last ?new)) = None \<longleftrightarrow> odd (length ?ids)"
    if "?new \<noteq> []"
  proof -
    from that len have pos: "0 < (length ?ids + 1) div 2" by (cases ?new) auto
    let ?k = "(length ?ids + 1) div 2 - 1"
    from pos have k: "?k < (length ?ids + 1) div 2" by arith
    have "last ?new = ?new ! ?k"
      using that len by (simp add: last_conv_nth)
    then have "m_team2_id (d_fields (last ?new)) =
        (if 2 * ?k + 1 < length ?ids then Some (?ids ! (2 * ?k + 1)) else None)"
      using k by (simp add: nth bracket_matches_nth)
    moreover have "2 * ?k + 1 < length ?ids \<longleftrightarrow> even (length ?ids)"
      using pos by presburger
    ultimately show ?thesis by simp
  qed
  show ?thesis
    using run len each last by (intro exI [of _ ?d'] exI [of _ ?new]) simp
qed


theorem generate_brackets_pairs_witness:
  "\<exists>d' new.
     generate_brackets (Some example_store) ''0000000000000000000000a1'' =
       (Inr \<lparr>created = 2\<rparr>, Some d') \<and>
     match_c d' = match_c example_store @ new \<and> length new = 2 \<and>
     m_team1_id (d_fields (new ! 0)) = Some ''0000000000000000000000b1'' \<and>
     m_team2_id (d_fields (new ! 0)) = Some ''0000000000000000000000b2'' \<and>
     m_team1_id (d_fields (new ! 1)) = Some ''0000000000000000000000b3'' \<and>
     m_team2_id (d_fields (new ! 1)) = None \<and>
     m_team2_id (d_fields (last new)) = None"
proof -
  have 1: "ObjectId ''0000000000000000000000a1'' = Some (Oid ''0000000000000000000000a1'')"
    by code_simp
  have 2: "find_one (Oid ''0000000000000000000000a1'') (tournament_c example_store) =
             Some (hd (tournament_c example_store))"
    by (simp add: example_store_def find_one_def)
  have 3: "get_team_ids (hd (tournament_c example_store)) =
             [''0000000000000000000000b1'', ''0000000000000000000000b2'',
              ''0000000000000000000000b3'']"
    by (simp add: example_store_def get_team_ids_def)
  have 4: "(\<forall>k<2. P k) \<longleftrightarrow> P 0 \<and> P (1::nat)" for P
    by (auto simp: less_2_cases_iff)
  show ?thesis
    using generate_brackets_pairs [OF 1 2] unfolding 3
    by (auto simp: 4)
qed


lemma filter_new_matches:
  "filter (\<lambda>doc. m_tournament_id (d_fields doc) = t)
     (assign_ids n (map (bracket_match t ids) is)) =
   assign_ids n (map (bracket_match t ids) is)"
proof -
  have "\<forall>x \<in> set (map d_fields (assign_ids n (map (bracket_match t ids) is))).
          m_tournament_id x = t"
    unfolding map_fields_assign_ids by (auto simp: bracket_match_def)
  then show ?thesis by (auto intro!: filter_True)
qed

text \<open>
  C8. \<open>generate_brackets\<close> has no guard against a second run: called twice in succession
  for a stored tournament with \<open>N\<close> teams, each call answers \<open>{created: ceil(N/2)}\<close>, the
  second appends documents with the same entries as those of the first, and the matches
  listed for the tournament grow by \<open>2 * ceil(N/2)\<close>; starting from none, there are then
  exactly that many.
\<close>

theorem generate_brackets_twice:
  assumes "ObjectId tournament_id = Some tid"
    and "find_one tid (tournament_c d) = Some tournament"
  shows "\<exists>d1 d2 new1 new2.
      generate_brackets (Some d) tournament_id =
        (Inr \<lparr>created = int ((length (get_team_ids tournament) + 1) div 2)\<rparr>, Some d1) \<and>
      generate_brackets (Some d1) tournament_id =
        (Inr \<lparr>created = int ((length (get_team_ids tournament) + 1) div 2)\<rparr>, Some d2) \<and>
      match_c d1 = match_c d @ new1 \<and>
      match_c d2 = match_c d @ new1 @ new2 \<and>
      length new1 = (length (get_team_ids tournament) + 1) div 2 \<and>
      length new2 = (length (get_team_ids tournament) + 1) div 2 \<and>
      map d_fields new2 = map d_fields new1 \<and>
      length (list_matches (Some d2) tournament_id) =
        length (list_matches (Some d) tournament_id) +
        2 * ((length (get_team_ids tournament) + 1) div 2)"
proof -
  let ?ids = "get_team_ids tournament"
  let ?ms = "map (bracket_match tournament_id ?ids) (py_range3 0 (length ?ids) 2)"
  let ?new1 = "assign_ids (oid_counter d) ?ms"
  let ?d1 = "d\<lparr>match_c := match_c d @ ?new1, oid_counter := oid_counter d + length ?ms\<rparr>"
  let ?new2 = "assign_ids (oid_counter ?d1) ?ms"
  let ?d2 = "?d1\<lparr>match_c := match_c ?d1 @ ?new2, oid_counter := oid_counter ?d1 + length ?ms\<rparr>"
  have len: "length ?ms = (length ?ids + 1) div 2"
    by (rule length_bracket_matches)
  have run1: "generate_brackets (Some d) tournament_id =
      (Inr \<lparr>created = int ((length ?ids + 1) div 2)\<rparr>, Some ?d1)"
    using generate_brackets_unfold [OF assms] len by (simp only: Let_def)
  have find1: "find_one tid (tournament_c ?d1) = Some tournament"
    using assms(2) by simp
  have run2: "generate_brackets (Some ?d1) tournament_id =
      (Inr \<lparr>created = int ((length ?ids + 1) div 2)\<rparr>, Some ?d2)"
    using generate_brackets_unfold [OF assms(1) find1] len by (simp only: Let_def)
  have fields: "map d_fields ?new2 = map d_fields ?new1"
    by (simp only: map_fields_assign_ids)
  have count: "length (list_matches (Some ?d2) tournament_id) =
      length (list_matches (Some d) tournament_id) + 2 * ((length ?ids + 1) div 2)"
    using len by (simp add: list_matches_def filter_new_matches length_assign_ids)
  have "match_c ?d1 = match_c d @ ?new1" "match_c ?d2 = match_c d @ ?new1 @ ?new2"
    "length ?new1 = (length ?ids + 1) div 2" "length ?new2 = (length ?ids + 1) div 2"
    using len by (simp_all add: length_assign_ids)
  with run1 run2 fields count show ?thesis
    by blast
qed

theorem generate_brackets_twice_witness:
  "\<exists>d1 d2 new1 new2.
     generate_brackets (Some example_store) ''0000000000000000000000a1'' =
       (Inr \<lparr>created = 2\<rparr>, Some d1) \<and>
     generate_brackets (Some d1) ''0000000000000000000000a1'' =
       (Inr \<lparr>created = 2\<rparr>, Some d2) \<and>
     match_c d2 = match_c example_store @ new1 @ new2 \<and>
     length new1 = 2 \<and> length new2 = 2 \<and>
     length (list_matches (Some d2) ''0000000000000000000000a1'') = 4"
proof -
  have 1: "ObjectId ''0000000000000000000000a1'' = Some (Oid ''0000000000000000000000a1'')"
    by code_simp
  have 2: "find_one (Oid ''0000000000000000000000a1'') (tournament_c example_store) =
             Some (hd (tournament_c example_store))"
    by (simp add: example_store_def find_one_def)
  have 3: "get_team_ids (hd (tournament_c example_store)) =
             [''0000000000000000000000b1'', ''0000000000000000000000b2'',
              ''0000000000000000000000b3'']"
    by (simp add: example_store_def get_team_ids_def)
  have 4: "list_matches (Some example_store) ''0000000000000000000000a1'' = []"
    by (simp add: list_matches_def example_store_def)
  show ?thesis
    using generate_brackets_twice [OF 1 2] unfolding 3 4
    apply (elim exE conjE, intro exI conjI)
         apply simp_all
     apply (simp_all add: numeral_2_eq_2)
    done
qed

section \<open>Groups and standing slots\<close>

lemma list_comp_all_Inr:
  "\<forall>x \<in> set xs. f x = Inr (g x) \<Longrightarrow> list_comp f xs = Inr (map g xs)"
  by (induction xs) auto

lemma list_comp_Inl:
  assumes "\<exists>x \<in> set xs. isl (f x)"
    and "\<forall>x \<in> set xs. \<forall>e'. f x = Inl e' \<longrightarrow> e' = e"
  shows "list_comp f xs = Inl e"
  using assms
proof (induction xs)
  case Nil
  then show ?case by simp
next
  case (Cons x xs)
  show ?case
  proof (cases "f x")
    case (Inl e')
    with Cons.prems(2) show ?thesis by simp
  next
    case (Inr y)
    with Cons.prems(1) have "\<exists>x \<in> set xs. isl (f x)" by auto
    with Cons.IH Cons.prems(2) have "list_comp f xs = Inl e" by simp
    with Inr show ?thesis by simp
  qed
qed

lemma group_names_ok:
  assumes "G \<le> 1114047"
  shows "group_names G = Inr (map (\<lambda>k. [65 + k]) [0..<nat G])"
proof -
  have "\<forall>x \<in> set (py_range G). py_chr (of_char CHR ''A'' + x) = Inr [65 + nat x]"
    using assms by (auto simp: py_range_def py_chr_def nat_add_distrib)
  then have "list_comp (\<lambda>i. py_chr (of_char CHR ''A'' + i)) (py_range G) =
      Inr (map (\<lambda>x. [65 + nat x]) (py_range G))"
    by (rule list_comp_all_Inr)
  then show ?thesis by (simp add: group_names_def py_range_def comp_def)
qed

lemma group_names_fail:
  assumes "1114047 < G"
  shows "group_names G = Inl ValueError"
  unfolding group_names_def
proof (rule list_comp_Inl)
  have "int 1114047 \<in> set (py_range G)"
    using assms unfolding py_range_def by (auto simp: image_iff intro!: bexI [of _ 1114047])
  moreover have "isl (py_chr (of_char CHR ''A'' + int 1114047))"
    by (simp add: py_chr_def)
  ultimately show "\<exists>x \<in> set (py_range G). isl (py_chr (of_char CHR ''A'' + x))"
    by blast
  show "\<forall>x \<in> set (py_range G). \<forall>e'. py_chr (of_char CHR ''A'' + x) = Inl e' \<longrightarrow> e' = ValueError"
    by (auto simp: py_chr_def split: if_splits)
qed

text \<open>
  C10. For a stored tournament, \<open>generate_groups\<close> with \<open>number_of_groups = 0\<close> fails
  with the division by zero, which no handler catches; no group and no standing has been
  inserted by then, and the store is as it was.
\<close>

theorem generate_groups_zero_groups:
  assumes "ObjectId tournament_id = Some tid"
    and "find_one tid (tournament_c d) = Some tournament"
    and "number_of_groups payload = 0"
  shows "generate_groups (Some d) tournament_id payload = (Inl ZeroDivisionError, Some d)"
  using assms by (simp add: generate_groups_def group_names_def py_range_def floordiv_def)

theorem generate_groups_zero_groups_witness:
  "generate_groups (Some example_store) ''0000000000000000000000a1''
     \<lparr>number_of_teams = 10, number_of_groups = 0\<rparr> =
   (Inl ZeroDivisionError, Some example_store)"
proof -
  have 1: "ObjectId ''0000000000000000000000a1'' = Some (Oid ''0000000000000000000000a1'')"
    by code_simp
  have 2: "find_one (Oid ''0000000000000000000000a1'') (tournament_c example_store) =
             Some (hd (tournament_c example_store))"
    by (simp add: example_store_def find_one_def)
  have 3: "number_of_groups \<lparr>number_of_teams = 10, number_of_groups = 0\<rparr> = 0"
    by simp
  show ?thesis by (rule generate_groups_zero_groups [OF 1 2 3])
qed

lemma generate_groups_too_many:
  assumes "ObjectId tournament_id = Some tid"
    and "find_one tid (tournament_c d) = Some tournament"
    and "1114047 < number_of_groups payload"
  shows "generate_groups (Some d) tournament_id payload = (Inl ValueError, Some d)"
  using assms by (simp add: generate_groups_def group_names_fail)

lemma generate_groups_unfold:
  assumes "ObjectId tournament_id = Some tid"
    and "find_one tid (tournament_c d) = Some tournament"
    and "1 \<le> number_of_groups payload"
    and "number_of_groups payload \<le> 55231"
  shows "generate_groups (Some d) tournament_id payload =
     (let names = map (\<lambda>k. [65 + k]) [0..<nat (number_of_groups payload)];
          groups = map (\<lambda>g. \<lparr>d_oid = None, d_id = None,
                               d_fields = \<lparr>g_tournament_id = tournament_id, g_name = g\<rparr>\<rparr>) names;
          standings =
            concat (map (\<lambda>g. replicate
                               (nat (max 1 (number_of_teams payload div number_of_groups payload)))
                               (standing_slot tournament_id g)) names)
      in (Inr \<lparr>groups_created = int (length groups), standing_slots = int (length standings)\<rparr>,
          Some (d\<lparr>group_c := group_c d @ assign_ids (oid_counter d) groups,
                  standing_c := standing_c d @
                    assign_ids (oid_counter d + length groups) standings,
                  oid_counter := oid_counter d + length groups + length standings\<rparr>)))"
proof -
  let ?G = "number_of_groups payload"
  let ?names = "map (\<lambda>k. [65 + k]) [0..<nat ?G]"
  have gn: "group_names ?G = Inr ?names"
    using assms(4) by (intro group_names_ok) simp
  have pos: "0 < nat ?G" using assms(3) by simp
  have enc: "\<forall>k < nat ?G. utf8_encodes [65 + k]"
    using assms(4) by (auto simp: utf8_encodes_def)
  have fd: "floordiv (number_of_teams payload) ?G = Inr (number_of_teams payload div ?G)"
    using assms(3) by (simp add: floordiv_def)
  have ex: "(\<forall>k. \<not> k < nat ?G) = False"
    using pos by (auto intro!: exI [of _ 0])
  show ?thesis
    using assms(1,2) pos enc
    by (simp add: ex generate_groups_def gn fd insert_many_def Let_def list_all_iff
        standing_slot_def)
qed


lemma length_concat_replicate:
  "length (concat (map (\<lambda>g. replicate m (f g)) xs)) = length xs * m"
  by (induction xs) auto

lemma nth_concat_replicate:
  "0 < m \<Longrightarrow> j < length xs * m \<Longrightarrow>
   concat (map (\<lambda>g. replicate m (f g)) xs) ! j = f (xs ! (j div m))"
proof (induction xs arbitrary: j)
  case Nil
  then show ?case by simp
next
  case (Cons x xs)
  show ?case
  proof (cases "j < m")
    case True
    then show ?thesis by (simp add: nth_append)
  next
    case False
    then have "j div m = Suc ((j - m) div m)"
      using Cons.prems(1) by (simp add: le_div_geq)
    moreover have "j - m < length xs * m"
      using Cons.prems(2) False by simp
    ultimately show ?thesis
      using False Cons.IH [of "j - m"] Cons.prems(1) by (simp add: nth_append)
  qed
qed

lemma fields_nth_assign_ids:
  "j < length docs \<Longrightarrow> d_fields (assign_ids n docs ! j) = d_fields (docs ! j)"
  by (simp add: nth_assign_ids split: option.splits)

lemma oid_nth_assign_ids:
  "j < length docs \<Longrightarrow> d_oid (assign_ids n docs ! j) \<noteq> None"
  by (simp add: nth_assign_ids split: option.splits)

text \<open>
  Beyond 55231 groups a name is a surrogate code point, which the driver cannot encode: the
  insertion of the groups raises and nothing is written. Beyond 1114047 groups \<open>chr\<close>
  itself raises (\<open>generate_groups_too_many\<close>).
\<close>

lemma generate_groups_surrogate:
  assumes "ObjectId tournament_id = Some tid"
    and "find_one tid (tournament_c d) = Some tournament"
    and "55231 < number_of_groups payload"
    and "number_of_groups payload \<le> 1114047"
  shows "generate_groups (Some d) tournament_id payload = (Inl UnicodeEncodeError, Some d)"
proof -
  let ?G = "number_of_groups payload"
  have gn: "group_names ?G = Inr (map (\<lambda>k. [65 + k]) [0..<nat ?G])"
    using assms(4) by (rule group_names_ok)
  have k: "(55231::nat) < nat ?G" using assms(3) by simp
  have bad: "\<not> utf8_encodes [65 + (55231::nat)]"
    by (simp add: utf8_encodes_def)
  have nb: "(\<forall>k \<in> {0..<nat ?G}. utf8_encodes [65 + k]) = False"
    using k bad by (auto intro!: bexI [of _ 55231])
  have ne: "(?G \<le> 0) = False"
    using assms(3) by simp
  show ?thesis
    using assms(1,2)
    by (simp add: generate_groups_def gn insert_many_def Let_def list_all_iff nb ne)
qed

text \<open>
  C2, amended. For a stored tournament, \<open>G\<close> groups with \<open>1 \<le> G \<le> 55231\<close> and any number
  of teams \<open>T\<close>, \<open>generate_groups\<close> answers
  \<open>{groups_created: G, standing_slots: G * max(1, T // G)}\<close>, appends exactly \<open>G\<close> group
  documents and exactly \<open>G * max(1, T // G)\<close> standing documents, and leaves the other
  collections as they were. Every new standing has no team, no flag, logo or name and 0
  points, and the standings are laid out one group at a time: standing \<open>j\<close> carries the
  name of group \<open>j div max(1, T // G)\<close>.
\<close>

theorem generate_groups_counts:
  assumes "ObjectId tournament_id = Some tid"
    and "find_one tid (tournament_c d) = Some tournament"
    and "1 \<le> number_of_groups payload"
    and "number_of_groups payload \<le> 55231"
  shows "\<exists>d' gs ss.
      generate_groups (Some d) tournament_id payload =
        (Inr \<lparr>groups_created = number_of_groups payload,
              standing_slots = number_of_groups payload *
                max 1 (number_of_teams payload div number_of_groups payload)\<rparr>, Some d') \<and>
      group_c d' = group_c d @ gs \<and> standing_c d' = standing_c d @ ss \<and>
      tournament_c d' = tournament_c d \<and> team_c d' = team_c d \<and> match_c d' = match_c d \<and>
      int (length gs) = number_of_groups payload \<and>
      int (length ss) = number_of_groups payload *
        max 1 (number_of_teams payload div number_of_groups payload) \<and>
      (\<forall>i < length gs.
         d_oid (gs ! i) \<noteq> None \<and> g_tournament_id (d_fields (gs ! i)) = tournament_id) \<and>
      (\<forall>j < length ss.
         d_oid (ss ! j) \<noteq> None \<and>
         s_tournament_id (d_fields (ss ! j)) = tournament_id \<and>
         s_team_id (d_fields (ss ! j)) = None \<and>
         s_team_country_flag (d_fields (ss ! j)) = None \<and>
         s_team_logo (d_fields (ss ! j)) = None \<and>
         s_team_name (d_fields (ss ! j)) = None \<and>
         s_total_points (d_fields (ss ! j)) = 0 \<and>
         s_group_name (d_fields (ss ! j)) =
           g_name (d_fields
             (gs ! (j div nat (max 1 (number_of_teams payload div number_of_groups payload))))))"
proof -
  let ?G = "number_of_groups payload"
  let ?m = "nat (max 1 (number_of_teams payload div ?G))"
  let ?names = "map (\<lambda>k. [65 + k]) [0..<nat ?G]"
  let ?groups = "map (\<lambda>g. \<lparr>d_oid = None, d_id = None,
                   d_fields = \<lparr>g_tournament_id = tournament_id, g_name = g\<rparr>\<rparr>) ?names"
  let ?standings = "concat (map (\<lambda>g. replicate ?m (standing_slot tournament_id g)) ?names)"
  let ?gs = "assign_ids (oid_counter d) ?groups"
  let ?ss = "assign_ids (oid_counter d + length ?groups) ?standings"
  let ?d' = "d\<lparr>group_c := group_c d @ ?gs, standing_c := standing_c d @ ?ss,
               oid_counter := oid_counter d + length ?groups + length ?standings\<rparr>"
  have m: "0 < ?m" by simp
  have lg: "length ?groups = nat ?G" by simp
  have ls: "length ?standings = nat ?G * ?m"
    by (simp only: length_concat_replicate) simp
  have ilg: "int (length ?groups) = ?G"
    using assms(3) by simp
  have ils: "int (length ?standings) = ?G * max 1 (number_of_teams payload div ?G)"
    using assms(3) by (simp only: ls) simp
  have run: "generate_groups (Some d) tournament_id payload =
      (Inr \<lparr>groups_created = ?G,
            standing_slots = ?G * max 1 (number_of_teams payload div ?G)\<rparr>, Some ?d')"
    using generate_groups_unfold [OF assms] ilg ils by (simp only: Let_def)
  have g: "d_oid (?gs ! i) \<noteq> None \<and> g_tournament_id (d_fields (?gs ! i)) = tournament_id \<and>
      g_name (d_fields (?gs ! i)) = [65 + i]"
    if "i < nat ?G" for i
  proof -
    from that have "i < length ?groups" by simp
    then have "d_oid (?gs ! i) \<noteq> None" "d_fields (?gs ! i) = d_fields (?groups ! i)"
      by (rule oid_nth_assign_ids, rule fields_nth_assign_ids)
    with that show ?thesis by simp
  qed
  have s: "d_oid (?ss ! j) \<noteq> None \<and>
      d_fields (?ss ! j) = d_fields (standing_slot tournament_id [65 + j div ?m])"
    if "j < nat ?G * ?m" for j
  proof -
    from that have j: "j < length ?standings" by (simp only: ls)
    then have "d_oid (?ss ! j) \<noteq> None" "d_fields (?ss ! j) = d_fields (?standings ! j)"
      by (rule oid_nth_assign_ids, rule fields_nth_assign_ids)
    moreover have jj: "j < length ?names * ?m" using that by simp
    have "?standings ! j = standing_slot tournament_id (?names ! (j div ?m))"
      by (rule nth_concat_replicate [OF m jj])
    moreover have "j div ?m < nat ?G"
      using that m by (simp add: less_mult_imp_div_less)
    ultimately show ?thesis by simp
  qed
  have lgs: "length ?gs = nat ?G" by (simp only: length_assign_ids lg)
  have lss: "length ?ss = nat ?G * ?m" by (simp only: length_assign_ids ls)
  have all_g: "\<forall>i < length ?gs.
      d_oid (?gs ! i) \<noteq> None \<and> g_tournament_id (d_fields (?gs ! i)) = tournament_id"
    using g by (simp only: lgs) blast
  have all_s: "\<forall>j < length ?ss.
         d_oid (?ss ! j) \<noteq> None \<and>
         s_tournament_id (d_fields (?ss ! j)) = tournament_id \<and>
         s_team_id (d_fields (?ss ! j)) = None \<and>
         s_team_country_flag (d_fields (?ss ! j)) = None \<and>
         s_team_logo (d_fields (?ss ! j)) = None \<and>
         s_team_name (d_fields (?ss ! j)) = None \<and>
         s_total_points (d_fields (?ss ! j)) = 0 \<and>
         s_group_name (d_fields (?ss ! j)) = g_name (d_fields (?gs ! (j div ?m)))"
  proof (intro allI impI)
    fix j assume "j < length ?ss"
    then have j: "j < nat ?G * ?m" by (simp only: lss)
    then have "j div ?m < nat ?G"
      using m by (simp add: less_mult_imp_div_less)
    from s [OF j] g [OF this] show "d_oid (?ss ! j) \<noteq> None \<and>
         s_tournament_id (d_fields (?ss ! j)) = tournament_id \<and>
         s_team_id (d_fields (?ss ! j)) = None \<and>
         s_team_country_flag (d_fields (?ss ! j)) = None \<and>
         s_team_logo (d_fields (?ss ! j)) = None \<and>
         s_team_name (d_fields (?ss ! j)) = None \<and>
         s_total_points (d_fields (?ss ! j)) = 0 \<and>
         s_group_name (d_fields (?ss ! j)) = g_name (d_fields (?gs ! (j div ?m)))"
      by (simp add: standing_slot_def)
  qed
  have "int (length ?gs) = ?G"
    using assms(3) by (simp add: length_assign_ids)
  moreover have "int (length ?ss) = ?G * max 1 (number_of_teams payload div ?G)"
    using ils by (simp only: length_assign_ids)
  moreover have "group_c ?d' = group_c d @ ?gs" "standing_c ?d' = standing_c d @ ?ss"
    "tournament_c ?d' = tournament_c d" "team_c ?d' = team_c d" "match_c ?d' = match_c d"
    by simp_all
  ultimately show ?thesis
    using run all_g all_s by blast
qed


theorem generate_groups_counts_witness:
  "\<exists>d' gs ss.
     generate_groups (Some example_store) ''0000000000000000000000a1''
       \<lparr>number_of_teams = 10, number_of_groups = 3\<rparr> =
       (Inr \<lparr>groups_created = 3, standing_slots = 9\<rparr>, Some d') \<and>
     group_c d' = group_c example_store @ gs \<and>
     standing_c d' = standing_c example_store @ ss \<and>
     int (length gs) = 3 \<and> int (length ss) = 9"
proof -
  have 1: "ObjectId ''0000000000000000000000a1'' = Some (Oid ''0000000000000000000000a1'')"
    by code_simp
  have 2: "find_one (Oid ''0000000000000000000000a1'') (tournament_c example_store) =
             Some (hd (tournament_c example_store))"
    by (simp add: example_store_def find_one_def)
  have 3: "1 \<le> number_of_groups \<lparr>number_of_teams = 10, number_of_groups = 3\<rparr>"
    "number_of_groups \<lparr>number_of_teams = 10, number_of_groups = 3\<rparr> \<le> 55231"
    by simp_all
  have 4: "number_of_groups \<lparr>number_of_teams = 10, number_of_groups = 3\<rparr> *
      max 1 (number_of_teams \<lparr>number_of_teams = 10, number_of_groups = 3\<rparr> div
             number_of_groups \<lparr>number_of_teams = 10, number_of_groups = 3\<rparr>) = 9"
    "number_of_groups \<lparr>number_of_teams = 10, number_of_groups = 3\<rparr> = 3"
    by simp_all
  show ?thesis
    using generate_groups_counts [OF 1 2 3] unfolding 4
    by (elim exE conjE, intro exI conjI) simp_all
qed

text \<open>
  C2, as stated for every \<open>G \<ge> 1\<close>, fails for 1114048 groups: the last name would be
  \<open>chr(1114112)\<close>, which raises ValueError before anything is inserted.
\<close>

theorem generate_groups_range_counterexample:
  "generate_groups (Some example_store) ''0000000000000000000000a1''
     \<lparr>number_of_teams = 0, number_of_groups = 1114048\<rparr> =
   (Inl ValueError, Some example_store)"
proof -
  have 1: "ObjectId ''0000000000000000000000a1'' = Some (Oid ''0000000000000000000000a1'')"
    by code_simp
  have 2: "find_one (Oid ''0000000000000000000000a1'') (tournament_c example_store) =
             Some (hd (tournament_c example_store))"
    by (simp add: example_store_def find_one_def)
  have 3: "1114047 < number_of_groups \<lparr>number_of_teams = 0, number_of_groups = 1114048\<rparr>"
    by simp
  show ?thesis by (rule generate_groups_too_many [OF 1 2 3])
qed

lemma alphabet_code_points:
  "map (\<lambda>c. ascii [c]) ''ABCDEFGHIJKLMNOPQRSTUVWXYZ'' = map (\<lambda>k. [65 + k]) [0..<26]"
  by (simp add: ascii_def upt_rec)

text \<open>
  C6, amended. For a stored tournament and \<open>N\<close> groups with \<open>1 \<le> N \<le> 26\<close>, the \<open>N\<close> group
  documents that \<open>generate_groups\<close> appends are named, in order, with the first \<open>N\<close>
  letters of the alphabet, each name one upper-case letter.
\<close>

theorem generate_groups_names:
  assumes "ObjectId tournament_id = Some tid"
    and "find_one tid (tournament_c d) = Some tournament"
    and "1 \<le> number_of_groups payload"
    and "number_of_groups payload \<le> 26"
  shows "\<exists>d' gs.
      snd (generate_groups (Some d) tournament_id payload) = Some d' \<and>
      group_c d' = group_c d @ gs \<and>
      int (length gs) = number_of_groups payload \<and>
      map (g_name \<circ> d_fields) gs =
        take (nat (number_of_groups payload))
          (map (\<lambda>c. ascii [c]) ''ABCDEFGHIJKLMNOPQRSTUVWXYZ'')"
proof -
  let ?G = "number_of_groups payload"
  let ?names = "map (\<lambda>k. [65 + k]) [0..<nat ?G]"
  let ?groups = "map (\<lambda>g. \<lparr>d_oid = None, d_id = None,
                   d_fields = \<lparr>g_tournament_id = tournament_id, g_name = g\<rparr>\<rparr>) ?names"
  let ?gs = "assign_ids (oid_counter d) ?groups"
  from assms(4) have le: "?G \<le> 55231" by simp
  obtain d' where run: "snd (generate_groups (Some d) tournament_id payload) = Some d'"
    and gc: "group_c d' = group_c d @ ?gs"
    using generate_groups_unfold [OF assms(1,2,3) le] by (simp add: Let_def)
  have "map (g_name \<circ> d_fields) ?gs = map g_name (map d_fields ?groups)"
    by (simp only: map_map [symmetric] map_fields_assign_ids)
  also have "\<dots> = ?names" by (simp add: comp_def)
  also have "\<dots> = take (nat ?G) (map (\<lambda>k. [65 + k]) [0..<26])"
    using assms(4) by (simp add: take_map min_def)
  finally have names: "map (g_name \<circ> d_fields) ?gs =
      take (nat ?G) (map (\<lambda>c. ascii [c]) ''ABCDEFGHIJKLMNOPQRSTUVWXYZ'')"
    by (simp only: alphabet_code_points)
  have "int (length ?gs) = ?G"
    using assms(3) by (simp add: length_assign_ids)
  with run gc names show ?thesis by blast
qed

theorem generate_groups_names_witness:
  "\<exists>d' gs.
     snd (generate_groups (Some example_store) ''0000000000000000000000a1''
            \<lparr>number_of_teams = 10, number_of_groups = 3\<rparr>) = Some d' \<and>
     group_c d' = group_c example_store @ gs \<and>
     map (g_name \<circ> d_fields) gs = [ascii ''A'', ascii ''B'', ascii ''C'']"
proof -
  have 1: "ObjectId ''0000000000000000000000a1'' = Some (Oid ''0000000000000000000000a1'')"
    by code_simp
  have 2: "find_one (Oid ''0000000000000000000000a1'') (tournament_c example_store) =
             Some (hd (tournament_c example_store))"
    by (simp add: example_store_def find_one_def)
  have 3: "1 \<le> number_of_groups \<lparr>number_of_teams = 10, number_of_groups = 3\<rparr>"
    "number_of_groups \<lparr>number_of_teams = 10, number_of_groups = 3\<rparr> \<le> 26"
    by simp_all
  have 4: "take (nat (number_of_groups \<lparr>number_of_teams = 10, number_of_groups = 3\<rparr>))
      (map (\<lambda>c. ascii [c]) ''ABCDEFGHIJKLMNOPQRSTUVWXYZ'') =
      [ascii ''A'', ascii ''B'', ascii ''C'']"
    by (simp add: numeral_3_eq_3)
  show ?thesis
    using generate_groups_names [OF 1 2 3] unfolding 4
    by (elim exE conjE, intro exI conjI) simp_all
qed

text \<open>
  C6, as stated for every \<open>N \<ge> 1\<close>, fails for 27 groups: the name of the last group is
  the character after \<open>Z\<close>, an opening bracket.
\<close>

theorem generate_groups_names_counterexample:
  "map (g_name \<circ> d_fields)
     (group_c (the (snd (generate_groups (Some example_store) ''0000000000000000000000a1''
        \<lparr>number_of_teams = 27, number_of_groups = 27\<rparr>)))) ! 26 = ascii ''[''"
proof -
  have 1: "ObjectId ''0000000000000000000000a1'' = Some (Oid ''0000000000000000000000a1'')"
    by code_simp
  have 2: "find_one (Oid ''0000000000000000000000a1'') (tournament_c example_store) =
             Some (hd (tournament_c example_store))"
    by (simp add: example_store_def find_one_def)
  have 3: "1 \<le> number_of_groups \<lparr>number_of_teams = 27, number_of_groups = 27\<rparr>"
    "number_of_groups \<lparr>number_of_teams = 27, number_of_groups = 27\<rparr> \<le> 55231"
    by simp_all
  have 4: "group_c example_store = []"
    by (simp add: example_store_def)
  show ?thesis
    by (simp add: generate_groups_unfold [OF 1 2 3] Let_def 4 map_fields_assign_ids
        map_map [symmetric] ascii_def del: map_map)
qed

end
